theory Spec2Isabelle
  imports Complex_Main
begin

section \<open>Behavior model\<close>

text \<open>
  Modelled from the spec: the type declarations of \<open>core/models\<close>, which are not among the
  source files; the records follow section 3 of the spec and the way the code reads each
  field. JavaScript numbers are modelled as reals: NaN, the infinities and rounding are
  outside the model. An optional property (\<open>x?: T\<close>, read through \<open>x || d\<close> or \<open>x && e\<close> in
  the code) is an \<open>option\<close>.
\<close>

datatype AnomalyMitigationAction = NONE | WARN | SLOW | REQUIRE_APPROVAL | HALT

record AnomalyToleranceThresholds =
  warn :: real
  slow :: real
  requireApproval :: real
  halt :: real

record BehaviorVector =
  intentDeviationRisk :: real
  scopeDriftRisk :: real
  apiNoveltyRisk :: real
  sensitiveDataExposureRisk :: real
  cooperativeInstabilityRisk :: real
  dataVolumeRisk :: real

record ResolvedAction =
  action :: AnomalyMitigationAction
  threshold :: "real option"

record AnomalyDetectionDecision = ResolvedAction +
  deviationScore :: real
  predicted :: BehaviorVector
  live :: BehaviorVector

datatype DataOperation = read | "write"

datatype DataSensitivity = low | medium | high

record DataAccess =
  operation :: DataOperation
  recordCount :: "real option"
  sensitivity :: DataSensitivity

record CooperativeSignal =
  stabilityScore :: real
  conflictScore :: "real option"

record ExecutionStep =
  observedIntent :: "string option"
  authorityScopeUsed :: "string list option"
  apiCalls :: "string list option"
  dataAccess :: "DataAccess list option"
  cooperativeSignals :: "CooperativeSignal list option"

record InProcessMonitorPolicy =
  declaredAuthorityScope :: "string list"
  allowedApis :: "string list"
  maxRecordsPerStep :: real
  minCooperativeStability :: real
  maxCooperativeConflict :: real

text \<open>
  A value of type \<open>any\<close>, as \<open>params: Record<string, any>\<close> carries them. Reading a
  property that is not there gives \<open>JSUndefined\<close>, so \<open>params\<close> is a total function.
\<close>

datatype js_value =
    JSUndefined
  | JSNull
  | JSBoolean bool
  | JSNumber real
  | JSString string
  | JSArray "js_value list"
  | JSObject "(string \<times> js_value) list"

fun truthy :: "js_value \<Rightarrow> bool" where
  "truthy JSUndefined = False"
| "truthy JSNull = False"
| "truthy (JSBoolean b) = b"
| "truthy (JSNumber x) = (x \<noteq> 0)"
| "truthy (JSString s) = (s \<noteq> [])"
| "truthy (JSArray xs) = True"
| "truthy (JSObject kvs) = True"

datatype ViolationSeverity = LOW | MEDIUM | HIGH | CRITICAL

text \<open>
  Modelled from the spec: the enums of \<open>core/models\<close>. Only the member \<open>COMPLIANCE\<close> of
  the category enum and the states below are named in the source files and the spec; the
  other members of the two enums stand under one constructor each.
\<close>

datatype ViolationCategory = COMPLIANCE | OTHER_CATEGORY string

datatype EnforcementState =
    PENDING
  | PRE_EXECUTION_FAILED
  | SUSPENDED
  | COMPLETED
  | AUDIT_PASSED
  | AUDIT_FAILED
  | OTHER_STATE string

record Violation =
  violation_id :: string
  timestamp :: nat
  category :: ViolationCategory
  severity :: ViolationSeverity
  description :: string
  sourceLayer :: string
  metadata :: "(string \<times> js_value) list"

record RemediationReport =
  rollbackTransactions :: "js_value list"

text \<open>
  Modelled from the spec: \<open>ActionContext\<close> of \<open>core/models\<close>, with the fields the source
  files read and write. Times are milliseconds since the epoch. Interventions, system
  changes and stakeholders are only passed through and stay opaque values.
\<close>

record ActionContext =
  actionId :: string
  agentId :: string
  intent :: string
  params :: "string \<Rightarrow> js_value"
  startTime :: nat
  endTime :: "nat option"
  status :: EnforcementState
  violations :: "Violation list"
  interventions :: "js_value list"
  systemChanges :: "js_value list option"
  stakeholders :: "js_value list option"
  trustCoefficient :: real
  predictedBehaviorVector :: "BehaviorVector option"
  remediationReport :: "RemediationReport option"

section \<open>Anomaly detection engine\<close>

subsection \<open>Mitigation policy\<close>

text \<open>
  The constructor fills every threshold the caller left out
  (\<open>thresholds?.warn ?? 0.25\<close> and so on).
\<close>

definition defaultThresholds ::
  "real option \<Rightarrow> real option \<Rightarrow> real option \<Rightarrow> real option \<Rightarrow> AnomalyToleranceThresholds" where
  "defaultThresholds w s r h =
     \<lparr> warn = (case w of None \<Rightarrow> 25 / 100 | Some x \<Rightarrow> x),
       slow = (case s of None \<Rightarrow> 4 / 10 | Some x \<Rightarrow> x),
       requireApproval = (case r of None \<Rightarrow> 6 / 10 | Some x \<Rightarrow> x),
       halt = (case h of None \<Rightarrow> 8 / 10 | Some x \<Rightarrow> x) \<rparr>"

definition resolveAction :: "AnomalyToleranceThresholds \<Rightarrow> real \<Rightarrow> ResolvedAction" where
  "resolveAction thresholds score =
     (if score \<ge> halt thresholds then
        \<lparr> action = HALT, threshold = Some (halt thresholds) \<rparr>
      else if score \<ge> requireApproval thresholds then
        \<lparr> action = REQUIRE_APPROVAL, threshold = Some (requireApproval thresholds) \<rparr>
      else if score \<ge> slow thresholds then
        \<lparr> action = SLOW, threshold = Some (slow thresholds) \<rparr>
      else if score \<ge> warn thresholds then
        \<lparr> action = WARN, threshold = Some (warn thresholds) \<rparr>
      else
        \<lparr> action = NONE, threshold = None \<rparr>)"

subsection \<open>Deviation scorer\<close>

definition computeDeviationScore :: "BehaviorVector \<Rightarrow> BehaviorVector \<Rightarrow> real" where
  "computeDeviationScore predictedVector liveVector =
     (let deltas =
        [ \<bar>intentDeviationRisk predictedVector - intentDeviationRisk liveVector\<bar>,
          \<bar>scopeDriftRisk predictedVector - scopeDriftRisk liveVector\<bar>,
          \<bar>apiNoveltyRisk predictedVector - apiNoveltyRisk liveVector\<bar>,
          \<bar>sensitiveDataExposureRisk predictedVector - sensitiveDataExposureRisk liveVector\<bar>,
          \<bar>cooperativeInstabilityRisk predictedVector - cooperativeInstabilityRisk liveVector\<bar>,
          \<bar>dataVolumeRisk predictedVector - dataVolumeRisk liveVector\<bar> ];
        meanDelta = foldl (\<lambda>sum delta. sum + delta) 0 deltas / real (length deltas)
      in max 0 (min 1 meanDelta))"

text \<open>A vector is valid when each of its six risks lies in \<open>[0,1]\<close>.\<close>

definition validVector :: "BehaviorVector \<Rightarrow> bool" where
  "validVector v =
     (0 \<le> intentDeviationRisk v \<and> intentDeviationRisk v \<le> 1 \<and>
      0 \<le> scopeDriftRisk v \<and> scopeDriftRisk v \<le> 1 \<and>
      0 \<le> apiNoveltyRisk v \<and> apiNoveltyRisk v \<le> 1 \<and>
      0 \<le> sensitiveDataExposureRisk v \<and> sensitiveDataExposureRisk v \<le> 1 \<and>
      0 \<le> cooperativeInstabilityRisk v \<and> cooperativeInstabilityRisk v \<le> 1 \<and>
      0 \<le> dataVolumeRisk v \<and> dataVolumeRisk v \<le> 1)"

text \<open>The mean of the six absolute per-dimension differences, written out.\<close>

definition meanAbsoluteDifference :: "BehaviorVector \<Rightarrow> BehaviorVector \<Rightarrow> real" where
  "meanAbsoluteDifference p l =
     (\<bar>intentDeviationRisk p - intentDeviationRisk l\<bar>
      + \<bar>scopeDriftRisk p - scopeDriftRisk l\<bar>
      + \<bar>apiNoveltyRisk p - apiNoveltyRisk l\<bar>
      + \<bar>sensitiveDataExposureRisk p - sensitiveDataExposureRisk l\<bar>
      + \<bar>cooperativeInstabilityRisk p - cooperativeInstabilityRisk l\<bar>
      + \<bar>dataVolumeRisk p - dataVolumeRisk l\<bar>) / 6"

definition defaultPredictedVector :: BehaviorVector where
  "defaultPredictedVector =
     \<lparr> intentDeviationRisk = 15 / 100, scopeDriftRisk = 15 / 100, apiNoveltyRisk = 15 / 100,
       sensitiveDataExposureRisk = 2 / 10, cooperativeInstabilityRisk = 15 / 100,
       dataVolumeRisk = 25 / 100 \<rparr>"

subsection \<open>Strings\<close>

text \<open>
  A string is a list of characters, each a code unit below 256 read as its Unicode code
  point (ASCII and Latin-1 text). On such text \<open>toLowerCase\<close> shifts \<open>A\<close> to \<open>Z\<close> and the
  accented capitals \<open>U+00C0\<close> to \<open>U+00DE\<close> (but the multiplication sign \<open>U+00D7\<close>) by 32,
  and the class \<open>\s\<close> holds tab, line feed, vertical tab, form feed, carriage return,
  space and the no-break space.
\<close>

definition toLowerCaseChar :: "char \<Rightarrow> char" where
  "toLowerCaseChar c =
     (let n = (of_char c :: nat)
      in if (65 \<le> n \<and> n \<le> 90) \<or> (192 \<le> n \<and> n \<le> 222 \<and> n \<noteq> 215)
         then char_of (n + 32) else c)"

definition toLowerCase :: "string \<Rightarrow> string" where
  "toLowerCase s = map toLowerCaseChar s"

definition isWhiteSpace :: "char \<Rightarrow> bool" where
  "isWhiteSpace c = ((of_char c :: nat) \<in> {9, 10, 11, 12, 13, 32, 160})"

text \<open>
  \<open>s.split(/\s+/)\<close>: the pieces between the maximal runs of white space. A run at the
  start or the end of the string leaves an empty piece there, and the empty string splits
  into one empty piece.
\<close>

function splitWhiteSpace :: "string \<Rightarrow> string list" where
  "splitWhiteSpace [] = [[]]"
| "splitWhiteSpace (c # cs) =
     (if isWhiteSpace c then [] # splitWhiteSpace (dropWhile isWhiteSpace cs)
      else (case splitWhiteSpace cs of
              [] \<Rightarrow> [[c]]
            | t # ts \<Rightarrow> (c # t) # ts))"
  by pat_completeness auto
termination
  by (relation "measure length") (auto simp: length_dropWhile_le less_Suc_eq_le)

fun startsWith :: "string \<Rightarrow> string \<Rightarrow> bool" where
  "startsWith s [] = True"
| "startsWith [] (c # w) = False"
| "startsWith (x # s) (c # w) = (x = c \<and> startsWith s w)"

text \<open>\<open>s.includes(w)\<close>: \<open>w\<close> starts at some position of \<open>s\<close>.\<close>

fun "includes" :: "string \<Rightarrow> string \<Rightarrow> bool" where
  "includes [] w = (w = [])"
| "includes (x # s) w = (startsWith (x # s) w \<or> includes s w)"

text \<open>
  \<open>new Set(xs)\<close>: the elements of \<open>xs\<close> in the order of their first occurrence, each
  once; \<open>size\<close> is the length of that list, \<open>has\<close> membership in it.
\<close>

definition newSet :: "'a list \<Rightarrow> 'a list" where
  "newSet xs = foldl (\<lambda>s x. if x \<in> set s then s else s @ [x]) [] xs"

subsection \<open>Deriving the live behavior vector\<close>

definition normalize :: "real \<Rightarrow> real" where
  "normalize value = max 0 (min 1 value)"

definition highImpactIntentWords :: "string list" where
  "highImpactIntentWords =
     [''delete'', ''drop'', ''exfiltrate'', ''disable'', ''override'', ''shutdown'']"

definition intentSimilarity :: "string \<Rightarrow> string \<Rightarrow> real" where
  "intentSimilarity observed declared =
     (let observedTokens = newSet (filter (\<lambda>token. length token > 3) (splitWhiteSpace observed));
          declaredTokens = newSet (filter (\<lambda>token. length token > 3) (splitWhiteSpace declared))
      in if length observedTokens = 0 \<or> length declaredTokens = 0 then 0
         else
           (let overlap =
              foldl (\<lambda>overlap token. if token \<in> set declaredTokens then overlap + 1 else overlap)
                (0::nat) observedTokens
            in real overlap / real (length declaredTokens)))"

definition deriveLiveBehaviorVector ::
  "ActionContext \<Rightarrow> ExecutionStep \<Rightarrow> InProcessMonitorPolicy \<Rightarrow> BehaviorVector" where
  "deriveLiveBehaviorVector context step policy =
     (let observed = toLowerCase (case observedIntent step of None \<Rightarrow> [] | Some s \<Rightarrow> s);
          declared = toLowerCase (intent context);
          intentRisk =
            (if observed = [] then 0
             else if intentSimilarity observed declared \<ge> 25 / 100 then 0
             else if list_ex (\<lambda>word. includes observed word) highImpactIntentWords then 1
             else 65 / 100);

          usedScopes = (case authorityScopeUsed step of None \<Rightarrow> [] | Some xs \<Rightarrow> xs);
          unauthorizedScopes =
            filter (\<lambda>scope. scope \<notin> set (declaredAuthorityScope policy)) usedScopes;
          scopeRisk =
            (if length usedScopes = 0 then 0
             else normalize (real (length unauthorizedScopes) / real (length usedScopes)));

          usedApis = (case apiCalls step of None \<Rightarrow> [] | Some xs \<Rightarrow> xs);
          unexpectedApis = filter (\<lambda>api. api \<notin> set (allowedApis policy)) usedApis;
          apiRisk =
            (if length usedApis = 0 then 0
             else normalize (real (length unexpectedApis) / real (length usedApis)));

          accesses = (case dataAccess step of None \<Rightarrow> [] | Some xs \<Rightarrow> xs);
          stepReads =
            foldl (\<lambda>sum access. sum + (case recordCount access of None \<Rightarrow> 0 | Some n \<Rightarrow> n)) 0
              (filter (\<lambda>access. operation access = read) accesses);
          stepSensitiveReads =
            foldl (\<lambda>sum access. sum + (case recordCount access of None \<Rightarrow> 0 | Some n \<Rightarrow> n)) 0
              (filter (\<lambda>access. operation access = read
                         \<and> (sensitivity access = medium \<or> sensitivity access = high)) accesses);
          sensitiveRisk = (if stepReads = 0 then 0 else normalize (stepSensitiveReads / stepReads));
          volumeRisk = normalize (stepReads / max 1 (maxRecordsPerStep policy));

          cooperativeRisk =
            (case cooperativeSignals step of
               None \<Rightarrow> 0
             | Some signals \<Rightarrow>
                 if length signals > 0 then
                   (let instabilityValues =
                      map (\<lambda>signal.
                             let stabilityDeficit =
                                   (if stabilityScore signal < minCooperativeStability policy
                                    then minCooperativeStability policy - stabilityScore signal
                                    else 0);
                                 conflictExcess =
                                   (case conflictScore signal of
                                      None \<Rightarrow> 0
                                    | Some c \<Rightarrow>
                                        if c \<noteq> 0 \<and> c > maxCooperativeConflict policy
                                        then c - maxCooperativeConflict policy
                                        else 0)
                             in normalize (stabilityDeficit + conflictExcess)) signals
                    in normalize
                         (foldl (\<lambda>sum value. sum + value) 0 instabilityValues
                            / real (length instabilityValues)))
                 else 0)
      in \<lparr> intentDeviationRisk = normalize intentRisk,
           scopeDriftRisk = scopeRisk,
           apiNoveltyRisk = apiRisk,
           sensitiveDataExposureRisk = sensitiveRisk,
           cooperativeInstabilityRisk = cooperativeRisk,
           dataVolumeRisk = volumeRisk \<rparr>)"

definition evaluate ::
  "AnomalyToleranceThresholds \<Rightarrow> ActionContext \<Rightarrow> ExecutionStep \<Rightarrow> InProcessMonitorPolicy
     \<Rightarrow> AnomalyDetectionDecision" where
  "evaluate thresholds context step policy =
     (let predictedVector =
            (case predictedBehaviorVector context of
               None \<Rightarrow> defaultPredictedVector
             | Some v \<Rightarrow> v);
          liveVector = deriveLiveBehaviorVector context step policy;
          score = computeDeviationScore predictedVector liveVector;
          resolved = resolveAction thresholds score
      in \<lparr> action = action resolved, threshold = threshold resolved,
           deviationScore = score, predicted = predictedVector, live = liveVector \<rparr>)"

section \<open>Event bus, store and collaborators\<close>

text \<open>
  Contexts are objects shared by reference: the orchestrator's map, the stages and the
  handlers all hold the same object and change it in place. A reference is an address
  into a store, \<open>heap\<close>; \<open>nextRef\<close> is the next address not yet handed out;
  \<open>activeActions\<close> is the orchestrator's map from action ids to contexts.

  Modelled from the spec: the event bus of \<open>core/event-bus\<close>, which is not among the
  source files. \<open>published\<close> holds the events emitted so far, oldest first, with the event
  names of section 6 of the spec. Delivery is synchronous (section 6), to the handlers the
  orchestrator's constructor has registered: the handlers of \<open>REMEDIATION_TRIGGERED\<close> and
  \<open>REMEDIATION_COMPLETED\<close> only write to the console and no handler is registered for the
  other lifecycle events, so \<open>emit\<close> records the event and no more; \<open>emitViolation\<close>, given
  further down, runs the handler of \<open>VIOLATION_DETECTED\<close>.
\<close>

type_synonym ref = nat

datatype EnforcementEvent =
    ACTION_PROPOSED ref
  | ACTION_COMPLETED ref
  | VIOLATION_DETECTED string Violation
  | REMEDIATION_TRIGGERED ref
  | REMEDIATION_COMPLETED ref
  | AUDIT_STARTED ref
  | AUDIT_COMPLETED ref

record world =
  heap :: "ref \<Rightarrow> ActionContext"
  nextRef :: ref
  activeActions :: "string \<rightharpoonup> ref"
  published :: "EnforcementEvent list"

definition emit :: "EnforcementEvent \<Rightarrow> world \<Rightarrow> world" where
  "emit event w = w\<lparr> published := published w @ [event] \<rparr>"

text \<open>
  The layers that are not among the source files (pre-execution, in-process, adaptive
  intervention) are parameters: \<open>process(context)\<close> is handed a context and the world, and
  either throws (\<open>Inl\<close> of the value thrown) or returns a context, leaving a world behind.
\<close>

type_synonym layer = "ref \<Rightarrow> world \<Rightarrow> (js_value + ref) \<times> world"

text \<open>
  Modelled from the spec: \<open>RemediationEngine.remediate\<close> of \<open>layers/remediation\<close>, which is
  not among the source files and whose contract in section 4.6 of the spec is
  \<open>remediate(context) \<rightarrow> RemediationReport\<close>. The engine is a parameter: handed the context
  object, it throws or returns a report, and leaves the object as the second component
  says.
\<close>

type_synonym remediation_engine =
  "ActionContext \<Rightarrow> (js_value + RemediationReport) \<times> ActionContext"

text \<open>
  Modelled from the spec: an engine for the sample runs. It returns a report, and the report
  is on the context once the call has returned ("set once remediation completes", section
  3), where the orchestrator's handler of \<open>REMEDIATION_COMPLETED\<close> reads it.
\<close>

definition attachingEngine :: remediation_engine where
  "attachingEngine context =
     (Inr \<lparr> rollbackTransactions = [] \<rparr>,
      context\<lparr> remediationReport := Some \<lparr> rollbackTransactions = [] \<rparr> \<rparr>)"

text \<open>
  The readings of the wall clock in one run of \<open>coordinate\<close>, one for each \<open>Date.now()\<close>
  and \<open>new Date()\<close> in the order of the source: the action id, \<open>startTime\<close>, \<open>endTime\<close>, and
  in the post-execution layer the violation id and the violation's timestamp.
\<close>

record ClockReadings =
  actionClock :: nat
  startClock :: nat
  endClock :: nat
  violationClock :: nat
  violationStampClock :: nat

text \<open>The decimal digits of a number, as a template literal prints it.\<close>

fun decimal :: "nat \<Rightarrow> string" where
  "decimal n =
     (if n < 10 then [''0123456789'' ! n]
      else decimal (n div 10) @ [''0123456789'' ! (n mod 10)])"

declare decimal.simps [simp del]

section \<open>Guardrail orchestrator: event handlers\<close>

text \<open>
  The handler of \<open>VIOLATION_DETECTED\<close>. Console output is not modelled. The promise of an
  intervention layer that throws is rejected: the handler ends with \<open>Inl\<close>.
\<close>

definition onViolationDetected ::
  "layer \<Rightarrow> string \<Rightarrow> Violation \<Rightarrow> world \<Rightarrow> (js_value + unit) \<times> world" where
  "onViolationDetected interventionLayer anActionId violation w =
     (case activeActions w anActionId of
        None \<Rightarrow> (Inr (), w)
      | Some context \<Rightarrow>
          (let w1 =
                 (if find (\<lambda>v. violation_id v = violation_id violation)
                       (violations (heap w context)) = None
                  then w\<lparr> heap := (heap w)(context := (heap w context)
                          \<lparr> violations := violations (heap w context) @ [violation] \<rparr>) \<rparr>
                  else w)
           in case interventionLayer context w1 of
                (Inl thrown, w2) \<Rightarrow> (Inl thrown, w2)
              | (Inr returned, w2) \<Rightarrow> (Inr (), w2)))"

text \<open>
  Modelled from the spec: \<open>emitViolation\<close> of \<open>core/event-bus\<close>. It publishes
  \<open>VIOLATION_DETECTED\<close> and, delivery being synchronous, the handler above runs before
  \<open>emitViolation\<close> returns, the intervention layer with it. The handler is an \<open>async\<close>
  function: when its promise is rejected the publisher goes on all the same, in the world
  the handler left.
\<close>

definition emitViolation :: "layer \<Rightarrow> string \<Rightarrow> Violation \<Rightarrow> world \<Rightarrow> world" where
  "emitViolation interventionLayer anActionId violation w =
     snd (onViolationDetected interventionLayer anActionId violation
            (emit (VIOLATION_DETECTED anActionId violation) w))"

section \<open>Post-execution layer\<close>

definition getName :: string where
  "getName = ''PostExecutionAuditing''"

definition triggerRemediation ::
  "remediation_engine \<Rightarrow> ref \<Rightarrow> world \<Rightarrow> (js_value + unit) \<times> world" where
  "triggerRemediation remediate context w =
     (let w1 = emit (REMEDIATION_TRIGGERED context) w
      in case remediate (heap w1 context) of
           (Inl thrown, remediated) \<Rightarrow>
             (Inl thrown, w1\<lparr> heap := (heap w1)(context := remediated) \<rparr>)
         | (Inr report, remediated) \<Rightarrow>
             (Inr (),
              emit (REMEDIATION_COMPLETED context)
                (w1\<lparr> heap := (heap w1)(context := remediated) \<rparr>)))"

definition postExecution_process ::
  "layer \<Rightarrow> remediation_engine \<Rightarrow> nat \<Rightarrow> nat \<Rightarrow> ref \<Rightarrow> world
     \<Rightarrow> (js_value + ref) \<times> world" where
  "postExecution_process interventionLayer remediate idClock stampClock context w =
     (let w1 = emit (AUDIT_STARTED context) w;
          hasCriticalViolation =
            list_ex (\<lambda>v. severity v = CRITICAL) (violations (heap w1 context))
      in if hasCriticalViolation \<or> truthy (params (heap w1 context) ''invalidResult'') then
           (let violation =
                  \<lparr> violation_id = ''v-post-'' @ decimal idClock,
                    timestamp = stampClock,
                    category = COMPLIANCE,
                    severity = CRITICAL,
                    description = ''Final result fails compliance audit.'',
                    sourceLayer = getName,
                    metadata = [(''invalidResult'', params (heap w1 context) ''invalidResult'')] \<rparr>;
                w2 = w1\<lparr> heap := (heap w1)(context := (heap w1 context)
                        \<lparr> violations := violations (heap w1 context) @ [violation] \<rparr>) \<rparr>;
                w3 = w2\<lparr> heap := (heap w2)(context := (heap w2 context)
                        \<lparr> status := AUDIT_FAILED \<rparr>) \<rparr>;
                w4 = emitViolation interventionLayer (actionId (heap w3 context)) violation w3
            in case triggerRemediation remediate context w4 of
                 (Inl thrown, w5) \<Rightarrow> (Inl thrown, w5)
               | (Inr done, w5) \<Rightarrow> (Inr context, emit (AUDIT_COMPLETED context) w5))
         else
           (let w2 = w1\<lparr> heap := (heap w1)(context := (heap w1 context)
                        \<lparr> status := AUDIT_PASSED \<rparr>) \<rparr>
            in (Inr context, emit (AUDIT_COMPLETED context) w2)))"

section \<open>Guardrail orchestrator: coordination\<close>

text \<open>
  \<open>coordinate\<close> in three parts: what it does before the \<open>try\<close> (allocate the context,
  register it, publish it), the \<open>try\<close> block, and the \<open>finally\<close> block.
\<close>

definition coordinate_begin ::
  "ClockReadings \<Rightarrow> string \<Rightarrow> string \<Rightarrow> (string \<Rightarrow> js_value) \<Rightarrow> world \<Rightarrow> (string \<times> ref) \<times> world" where
  "coordinate_begin clock anAgentId anIntent someParams w =
     (let newActionId = ''act-'' @ decimal (actionClock clock);
          context =
            \<lparr> actionId = newActionId,
              agentId = anAgentId,
              intent = anIntent,
              params = someParams,
              startTime = startClock clock,
              endTime = None,
              status = PENDING,
              violations = [],
              interventions = [],
              systemChanges =
                (case someParams ''systemChanges'' of JSArray xs \<Rightarrow> Some xs | _ \<Rightarrow> None),
              stakeholders =
                (case someParams ''stakeholders'' of JSArray xs \<Rightarrow> Some xs | _ \<Rightarrow> None),
              trustCoefficient =
                (case someParams ''trustCoefficient'' of JSNumber x \<Rightarrow> x | _ \<Rightarrow> 1),
              predictedBehaviorVector = None,
              remediationReport = None \<rparr>;
          r = nextRef w;
          w1 = w\<lparr> heap := (heap w)(r := context), nextRef := Suc r \<rparr>;
          w2 = w1\<lparr> activeActions := (activeActions w1)(newActionId \<mapsto> r) \<rparr>
      in ((newActionId, r), emit (ACTION_PROPOSED r) w2))"

definition coordinate_try ::
  "layer \<Rightarrow> layer \<Rightarrow> layer \<Rightarrow> remediation_engine \<Rightarrow> ClockReadings \<Rightarrow> ref \<Rightarrow> world
     \<Rightarrow> (js_value + ref) \<times> world" where
  "coordinate_try preExecution inProcess interventionLayer remediate clock context w =
     (case preExecution context w of
        (Inl thrown, w1) \<Rightarrow> (Inl thrown, w1)
      | (Inr context1, w1) \<Rightarrow>
          if status (heap w1 context1) = PRE_EXECUTION_FAILED then (Inr context1, w1)
          else
            (case inProcess context1 w1 of
               (Inl thrown, w2) \<Rightarrow> (Inl thrown, w2)
             | (Inr context2, w2) \<Rightarrow>
                 if status (heap w2 context2) = SUSPENDED then
                   (Inr context2,
                    w2\<lparr> heap := (heap w2)(context2 := (heap w2 context2)
                          \<lparr> endTime := Some (endClock clock) \<rparr>) \<rparr>)
                 else
                   (let w3 = w2\<lparr> heap := (heap w2)(context2 := (heap w2 context2)
                                   \<lparr> endTime := Some (endClock clock) \<rparr>) \<rparr>;
                        w4 = w3\<lparr> heap := (heap w3)(context2 := (heap w3 context2)
                                   \<lparr> status := COMPLETED \<rparr>) \<rparr>;
                        w5 = emit (ACTION_COMPLETED context2) w4
                    in postExecution_process interventionLayer remediate (violationClock clock)
                         (violationStampClock clock) context2 w5)))"

definition coordinate_finally :: "string \<Rightarrow> world \<Rightarrow> world" where
  "coordinate_finally anActionId w = w\<lparr> activeActions := (activeActions w)(anActionId := None) \<rparr>"

definition coordinate ::
  "layer \<Rightarrow> layer \<Rightarrow> layer \<Rightarrow> remediation_engine \<Rightarrow> ClockReadings \<Rightarrow> string \<Rightarrow> string
     \<Rightarrow> (string \<Rightarrow> js_value) \<Rightarrow> world \<Rightarrow> (js_value + ref) \<times> world" where
  "coordinate preExecution inProcess interventionLayer remediate clock anAgentId anIntent
     someParams w =
     (case coordinate_begin clock anAgentId anIntent someParams w of
        ((newActionId, context), w1) \<Rightarrow>
          (case coordinate_try preExecution inProcess interventionLayer remediate clock context w1 of
             (outcome, w2) \<Rightarrow> (outcome, coordinate_finally newActionId w2)))"

section \<open>The rules as they are stated\<close>

text \<open>
  The total read record count of a step: the sum, over the \<open>read\<close> accesses of the step,
  of the record counts (an access without a count adds nothing).
\<close>

definition totalReadRecords :: "ExecutionStep \<Rightarrow> real" where
  "totalReadRecords step =
     sum_list (map (\<lambda>access. case recordCount access of None \<Rightarrow> 0 | Some n \<Rightarrow> n)
       (filter (\<lambda>access. operation access = read)
          (case dataAccess step of None \<Rightarrow> [] | Some xs \<Rightarrow> xs)))"

text \<open>
  The token set of an intent: its pieces longer than three characters. The token-overlap
  similarity of an observed and a declared intent is the number of declared tokens that
  are observed tokens too, over the number of declared tokens, and \<open>0\<close> when either set
  is empty.
\<close>

definition tokenSet :: "string \<Rightarrow> string set" where
  "tokenSet s = {t \<in> set (splitWhiteSpace s). length t > 3}"

definition tokenOverlapSimilarity :: "string \<Rightarrow> string \<Rightarrow> real" where
  "tokenOverlapSimilarity observed declared =
     (if tokenSet observed = {} \<or> tokenSet declared = {} then 0
      else real (card {t \<in> tokenSet declared. t \<in> tokenSet observed})
           / real (card (tokenSet declared)))"

definition mean :: "real list \<Rightarrow> real" where
  "mean xs = sum_list xs / real (length xs)"

text \<open>
  The instability of one cooperative signal as the rule for \<open>cooperativeInstabilityRisk\<close>
  words it, \<open>clamp(max(0, minCooperativeStability - stabilityScore) + max(0, conflictScore -
  maxCooperativeConflict))\<close>, a signal without a conflict score having no conflict excess.
\<close>

definition statedSignalInstability :: "InProcessMonitorPolicy \<Rightarrow> CooperativeSignal \<Rightarrow> real" where
  "statedSignalInstability policy signal =
     normalize
       (max 0 (minCooperativeStability policy - stabilityScore signal)
        + (case conflictScore signal of
             None \<Rightarrow> 0
           | Some c \<Rightarrow> max 0 (c - maxCooperativeConflict policy)))"

text \<open>
  The same with the guard of the code: a conflict score that is absent or \<open>0\<close> has no
  conflict excess.
\<close>

definition guardedSignalInstability :: "InProcessMonitorPolicy \<Rightarrow> CooperativeSignal \<Rightarrow> real" where
  "guardedSignalInstability policy signal =
     normalize
       (max 0 (minCooperativeStability policy - stabilityScore signal)
        + (case conflictScore signal of
             None \<Rightarrow> 0
           | Some c \<Rightarrow> if c = 0 then 0 else max 0 (c - maxCooperativeConflict policy)))"

text \<open>
  The rule for \<open>intentDeviationRisk\<close> read to the letter: the similarity compares the
  two intents without regard to case, the high-impact words are looked for in the observed
  intent as the step reports it.
\<close>

definition statedIntentDeviationRisk :: "string option \<Rightarrow> string \<Rightarrow> real" where
  "statedIntentDeviationRisk observedOption declaredIntent =
     (let observed = (case observedOption of None \<Rightarrow> [] | Some s \<Rightarrow> s)
      in if observed = [] then 0
         else if tokenOverlapSimilarity (toLowerCase observed) (toLowerCase declaredIntent) \<ge> 1 / 4
         then 0
         else if list_ex (\<lambda>word. includes observed word)
                   [''delete'', ''drop'', ''exfiltrate'', ''disable'', ''override'', ''shutdown'']
         then 1
         else 65 / 100)"

section \<open>Sample inputs\<close>

definition sampleContext :: ActionContext where
  "sampleContext =
     \<lparr> actionId = ''act-1700000000000'', agentId = ''agent-7'', intent = ''Generate report'',
       params = (\<lambda>key. JSUndefined), startTime = 1700000000000, endTime = None,
       status = PENDING, violations = [], interventions = [], systemChanges = None,
       stakeholders = None, trustCoefficient = 1, predictedBehaviorVector = None,
       remediationReport = None \<rparr>"

definition samplePolicy :: InProcessMonitorPolicy where
  "samplePolicy =
     \<lparr> declaredAuthorityScope = [''reports:read''], allowedApis = [''reports.list''],
       maxRecordsPerStep = 100, minCooperativeStability = 1 / 2,
       maxCooperativeConflict = 3 / 10 \<rparr>"

text \<open>A step that only writes: no scopes, no API calls, no records read.\<close>

definition writeOnlyStep :: ExecutionStep where
  "writeOnlyStep =
     \<lparr> observedIntent = None, authorityScopeUsed = None, apiCalls = Some [],
       dataAccess = Some [\<lparr> operation = write, recordCount = Some 50, sensitivity = high \<rparr>],
       cooperativeSignals = None \<rparr>"

text \<open>A step with two cooperative signals, one of them without a conflict score.\<close>

definition cooperativeStep :: ExecutionStep where
  "cooperativeStep =
     \<lparr> observedIntent = None, authorityScopeUsed = None, apiCalls = None, dataAccess = None,
       cooperativeSignals =
         Some [\<lparr> stabilityScore = 2 / 10, conflictScore = Some (5 / 10) \<rparr>,
               \<lparr> stabilityScore = 9 / 10, conflictScore = None \<rparr>] \<rparr>"

text \<open>
  A policy that tolerates no conflict at all, not even a conflict score of \<open>0\<close>, and a
  step with one stable signal whose conflict score is \<open>0\<close>.
\<close>

definition strictConflictPolicy :: InProcessMonitorPolicy where
  "strictConflictPolicy = samplePolicy\<lparr> maxCooperativeConflict := - (1 / 2) \<rparr>"

definition zeroConflictStep :: ExecutionStep where
  "zeroConflictStep =
     \<lparr> observedIntent = None, authorityScopeUsed = None, apiCalls = None, dataAccess = None,
       cooperativeSignals = Some [\<lparr> stabilityScore = 1, conflictScore = Some 0 \<rparr>] \<rparr>"

text \<open>A step whose observed intent shares no token with the declared one.\<close>

definition deleteStep :: ExecutionStep where
  "deleteStep =
     \<lparr> observedIntent = Some ''DELETE all production records'', authorityScopeUsed = None,
       apiCalls = None, dataAccess = None, cooperativeSignals = None \<rparr>"

text \<open>A step whose observed intent names a high-impact verb in lower case.\<close>

definition shutdownStep :: ExecutionStep where
  "shutdownStep =
     \<lparr> observedIntent = Some ''please shutdown billing'', authorityScopeUsed = None,
       apiCalls = None, dataAccess = None, cooperativeSignals = None \<rparr>"

text \<open>
  A world with one action in flight, already completed and carrying a critical violation
  raised during in-process monitoring, as the post-execution layer may find it.
\<close>

definition monitoringViolation :: Violation where
  "monitoringViolation =
     \<lparr> violation_id = ''v-proc-1'', timestamp = 1700000000200, category = COMPLIANCE,
       severity = CRITICAL, description = ''Unauthorized scope used.'',
       sourceLayer = ''InProcessMonitoring'', metadata = [] \<rparr>"

definition auditWorld :: world where
  "auditWorld =
     \<lparr> heap = (\<lambda>r. sampleContext\<lparr> status := COMPLETED, violations := [monitoringViolation],
                      endTime := Some 1700000000600 \<rparr>),
       nextRef = 1,
       activeActions = [''act-1700000000000'' \<mapsto> 0],
       published = [] \<rparr>"

text \<open>A second violation, and a world with nothing in flight.\<close>

definition lateViolation :: Violation where
  "lateViolation =
     \<lparr> violation_id = ''v-proc-2'', timestamp = 1700000000300, category = COMPLIANCE,
       severity = HIGH, description = ''Unexpected API call.'',
       sourceLayer = ''InProcessMonitoring'', metadata = [] \<rparr>"

definition initialWorld :: world where
  "initialWorld =
     \<lparr> heap = (\<lambda>r. sampleContext), nextRef = 0, activeActions = Map.empty, published = [] \<rparr>"

definition sampleClock :: ClockReadings where
  "sampleClock =
     \<lparr> actionClock = 1700000000000, startClock = 1700000000000, endClock = 1700000000600,
       violationClock = 1700000000601, violationStampClock = 1700000000601 \<rparr>"

text \<open>Layers for the sample runs: one that throws, one that rejects the action, one that passes.\<close>

definition throwingLayer :: layer where
  "throwingLayer context w = (Inl (JSString ''policy store unreachable''), w)"

definition rejectingLayer :: layer where
  "rejectingLayer context w =
     (Inr context,
      w\<lparr> heap := (heap w)(context := (heap w context)\<lparr> status := PRE_EXECUTION_FAILED \<rparr>) \<rparr>)"

definition passingLayer :: layer where
  "passingLayer context w = (Inr context, w)"

section \<open>Properties of the deviation scorer and the mitigation policy\<close>

lemma computeDeviationScore_unfold:
  "computeDeviationScore p l = max 0 (min 1 (meanAbsoluteDifference p l))"
  by (simp add: computeDeviationScore_def meanAbsoluteDifference_def Let_def)

lemma meanAbsoluteDifference_nonneg: "0 \<le> meanAbsoluteDifference p l"
  by (simp add: meanAbsoluteDifference_def)

lemma abs_diff_unit: "0 \<le> (a::real) \<Longrightarrow> a \<le> 1 \<Longrightarrow> 0 \<le> b \<Longrightarrow> b \<le> 1 \<Longrightarrow> \<bar>a - b\<bar> \<le> 1"
  by linarith

lemma meanAbsoluteDifference_le_one:
  assumes "validVector p" and "validVector l"
  shows "meanAbsoluteDifference p l \<le> 1"
proof -
  have "\<bar>intentDeviationRisk p - intentDeviationRisk l\<bar> \<le> 1"
    and "\<bar>scopeDriftRisk p - scopeDriftRisk l\<bar> \<le> 1"
    and "\<bar>apiNoveltyRisk p - apiNoveltyRisk l\<bar> \<le> 1"
    and "\<bar>sensitiveDataExposureRisk p - sensitiveDataExposureRisk l\<bar> \<le> 1"
    and "\<bar>cooperativeInstabilityRisk p - cooperativeInstabilityRisk l\<bar> \<le> 1"
    and "\<bar>dataVolumeRisk p - dataVolumeRisk l\<bar> \<le> 1"
    using assms by (simp_all add: validVector_def abs_diff_unit)
  then show ?thesis
    by (simp add: meanAbsoluteDifference_def)
qed

text \<open>
  C1. For valid vectors \<open>p\<close> and \<open>l\<close> the deviation score is the mean of the six
  absolute per-dimension differences clamped to \<open>[0,1]\<close> (and the clamp leaves that mean as
  it is), the score lies in \<open>[0,1]\<close>, and the score of a vector against itself is \<open>0\<close>.
\<close>

theorem computeDeviationScore_mean_clamped:
  assumes "validVector p" and "validVector l"
  shows "computeDeviationScore p l
           = max 0 (min 1 (meanAbsoluteDifference p l))
         \<and> computeDeviationScore p l = meanAbsoluteDifference p l
         \<and> 0 \<le> computeDeviationScore p l
         \<and> computeDeviationScore p l \<le> 1
         \<and> computeDeviationScore v v = 0"
proof -
  have lo: "0 \<le> meanAbsoluteDifference p l"
    by (rule meanAbsoluteDifference_nonneg)
  have hi: "meanAbsoluteDifference p l \<le> 1"
    using assms by (rule meanAbsoluteDifference_le_one)
  have self: "meanAbsoluteDifference v v = 0"
    by (simp add: meanAbsoluteDifference_def)
  show ?thesis
    using lo hi self by (simp add: computeDeviationScore_unfold)
qed

theorem computeDeviationScore_mean_clamped_witness:
  "validVector defaultPredictedVector
   \<and> validVector (defaultPredictedVector\<lparr>apiNoveltyRisk := 1\<rparr>)
   \<and> computeDeviationScore defaultPredictedVector (defaultPredictedVector\<lparr>apiNoveltyRisk := 1\<rparr>)
       = 17 / 120
   \<and> computeDeviationScore defaultPredictedVector defaultPredictedVector = 0"
proof -
  have a: "validVector defaultPredictedVector"
    by (simp add: validVector_def defaultPredictedVector_def)
  have b: "validVector (defaultPredictedVector\<lparr>apiNoveltyRisk := 1\<rparr>)"
    by (simp add: validVector_def defaultPredictedVector_def)
  have m: "meanAbsoluteDifference defaultPredictedVector
             (defaultPredictedVector\<lparr>apiNoveltyRisk := 1\<rparr>) = 17 / 120"
    by (simp add: meanAbsoluteDifference_def defaultPredictedVector_def)
  show ?thesis
    using a b m
      computeDeviationScore_mean_clamped [OF a b, of defaultPredictedVector]
    by simp
qed

text \<open>
  C2. \<open>resolveAction\<close> checks the thresholds from the highest to the lowest with an
  inclusive comparison: the action is \<open>HALT\<close> exactly when the score reaches \<open>halt\<close>,
  \<open>REQUIRE_APPROVAL\<close> exactly when it stays below \<open>halt\<close> and reaches \<open>requireApproval\<close>,
  and so on down to \<open>NONE\<close>; the threshold returned is the one of the tier matched, and
  \<open>NONE\<close> carries none.
\<close>

theorem resolveAction_tiers:
  "(action (resolveAction th score) = HALT) = (score \<ge> halt th)
   \<and> (action (resolveAction th score) = REQUIRE_APPROVAL)
       = (score < halt th \<and> score \<ge> requireApproval th)
   \<and> (action (resolveAction th score) = SLOW)
       = (score < halt th \<and> score < requireApproval th \<and> score \<ge> slow th)
   \<and> (action (resolveAction th score) = WARN)
       = (score < halt th \<and> score < requireApproval th \<and> score < slow th \<and> score \<ge> warn th)
   \<and> (action (resolveAction th score) = NONE)
       = (score < halt th \<and> score < requireApproval th \<and> score < slow th \<and> score < warn th)
   \<and> threshold (resolveAction th score)
       = (case action (resolveAction th score) of
            HALT \<Rightarrow> Some (halt th)
          | REQUIRE_APPROVAL \<Rightarrow> Some (requireApproval th)
          | SLOW \<Rightarrow> Some (slow th)
          | WARN \<Rightarrow> Some (warn th)
          | NONE \<Rightarrow> None)"
  by (simp add: resolveAction_def not_le)

theorem resolveAction_tiers_witness:
  "action (resolveAction (defaultThresholds None None None None) (6 / 10)) = REQUIRE_APPROVAL
   \<and> threshold (resolveAction (defaultThresholds None None None None) (6 / 10)) = Some (6 / 10)"
  using resolveAction_tiers [of "defaultThresholds None None None None" "6 / 10"]
  by (simp add: defaultThresholds_def)

section \<open>Properties of the live behavior vector\<close>

lemma foldl_plus_sum_list:
  "foldl (\<lambda>sum x. sum + f x) (z::real) xs = z + sum_list (map f xs)"
  by (induction xs arbitrary: z) simp_all

lemma stepReads_totalReadRecords:
  "foldl (\<lambda>sum access. sum + (case recordCount access of None \<Rightarrow> 0 | Some n \<Rightarrow> n)) 0
     (filter (\<lambda>access. operation access = read)
        (case dataAccess step of None \<Rightarrow> [] | Some xs \<Rightarrow> xs))
   = totalReadRecords step"
  by (simp add: foldl_plus_sum_list totalReadRecords_def)

lemma sensitiveDataExposureRisk_derive:
  "sensitiveDataExposureRisk (deriveLiveBehaviorVector context step policy)
   = (if totalReadRecords step = 0 then 0
      else normalize
        (foldl (\<lambda>sum access. sum + (case recordCount access of None \<Rightarrow> 0 | Some n \<Rightarrow> n)) 0
           (filter (\<lambda>access. operation access = read
                      \<and> (sensitivity access = medium \<or> sensitivity access = high))
              (case dataAccess step of None \<Rightarrow> [] | Some xs \<Rightarrow> xs))
         / totalReadRecords step))"
  by (simp add: deriveLiveBehaviorVector_def Let_def stepReads_totalReadRecords)

lemma dataVolumeRisk_derive:
  "dataVolumeRisk (deriveLiveBehaviorVector context step policy)
   = normalize (totalReadRecords step / max 1 (maxRecordsPerStep policy))"
  by (simp add: deriveLiveBehaviorVector_def Let_def stepReads_totalReadRecords)

text \<open>
  C8. Whatever the policy: a step with no \<open>authorityScopeUsed\<close> (absent or empty) has
  \<open>scopeDriftRisk = 0\<close>, a step with no \<open>apiCalls\<close> has \<open>apiNoveltyRisk = 0\<close>, and a step whose
  total read record count is \<open>0\<close> has \<open>sensitiveDataExposureRisk = 0\<close> and
  \<open>dataVolumeRisk = 0\<close>.
\<close>

theorem deriveLiveBehaviorVector_empty_input_zeroing:
  "(authorityScopeUsed step = None \<or> authorityScopeUsed step = Some []
      \<longrightarrow> scopeDriftRisk (deriveLiveBehaviorVector context step policy) = 0)
   \<and> (apiCalls step = None \<or> apiCalls step = Some []
      \<longrightarrow> apiNoveltyRisk (deriveLiveBehaviorVector context step policy) = 0)
   \<and> (totalReadRecords step = 0
      \<longrightarrow> sensitiveDataExposureRisk (deriveLiveBehaviorVector context step policy) = 0
        \<and> dataVolumeRisk (deriveLiveBehaviorVector context step policy) = 0)"
proof (intro conjI impI)
  assume "authorityScopeUsed step = None \<or> authorityScopeUsed step = Some []"
  then show "scopeDriftRisk (deriveLiveBehaviorVector context step policy) = 0"
    by (auto simp: deriveLiveBehaviorVector_def Let_def)
next
  assume "apiCalls step = None \<or> apiCalls step = Some []"
  then show "apiNoveltyRisk (deriveLiveBehaviorVector context step policy) = 0"
    by (auto simp: deriveLiveBehaviorVector_def Let_def)
next
  assume "totalReadRecords step = 0"
  then show "sensitiveDataExposureRisk (deriveLiveBehaviorVector context step policy) = 0"
    by (simp add: sensitiveDataExposureRisk_derive)
next
  assume "totalReadRecords step = 0"
  then show "dataVolumeRisk (deriveLiveBehaviorVector context step policy) = 0"
    by (simp add: dataVolumeRisk_derive normalize_def)
qed

theorem deriveLiveBehaviorVector_empty_input_zeroing_witness:
  "authorityScopeUsed writeOnlyStep = None
   \<and> apiCalls writeOnlyStep = Some []
   \<and> totalReadRecords writeOnlyStep = 0
   \<and> scopeDriftRisk (deriveLiveBehaviorVector sampleContext writeOnlyStep samplePolicy) = 0
   \<and> apiNoveltyRisk (deriveLiveBehaviorVector sampleContext writeOnlyStep samplePolicy) = 0
   \<and> sensitiveDataExposureRisk (deriveLiveBehaviorVector sampleContext writeOnlyStep samplePolicy) = 0
   \<and> dataVolumeRisk (deriveLiveBehaviorVector sampleContext writeOnlyStep samplePolicy) = 0"
proof -
  have reads: "totalReadRecords writeOnlyStep = 0"
    by (simp add: totalReadRecords_def writeOnlyStep_def)
  have scopes: "authorityScopeUsed writeOnlyStep = None"
    and apis: "apiCalls writeOnlyStep = Some []"
    by (simp_all add: writeOnlyStep_def)
  show ?thesis
    using reads scopes apis
      deriveLiveBehaviorVector_empty_input_zeroing [of writeOnlyStep sampleContext samplePolicy]
    by simp
qed

subsection \<open>Cooperative instability\<close>

lemma normalize_bounds: "0 \<le> normalize x \<and> normalize x \<le> 1"
  by (simp add: normalize_def)

lemma normalize_unit: "0 \<le> x \<Longrightarrow> x \<le> 1 \<Longrightarrow> normalize x = x"
  by (simp add: normalize_def)

lemma sum_list_unit_bounds:
  "list_all (\<lambda>x. 0 \<le> x \<and> x \<le> (1::real)) xs \<Longrightarrow> 0 \<le> sum_list xs \<and> sum_list xs \<le> real (length xs)"
  by (induction xs) auto

lemma mean_unit_bounds:
  assumes "list_all (\<lambda>x. 0 \<le> x \<and> x \<le> (1::real)) xs" and "xs \<noteq> []"
  shows "0 \<le> mean xs \<and> mean xs \<le> 1"
proof -
  have "0 \<le> sum_list xs" and "sum_list xs \<le> real (length xs)"
    using sum_list_unit_bounds [OF assms(1)] by simp_all
  moreover have "0 < real (length xs)"
    using assms(2) by simp
  ultimately show ?thesis
    by (simp add: mean_def divide_le_eq)
qed

lemma guardedSignalInstability_code:
  "normalize
     ((if stabilityScore signal < minCooperativeStability policy
       then minCooperativeStability policy - stabilityScore signal else 0)
      + (case conflictScore signal of
           None \<Rightarrow> 0
         | Some c \<Rightarrow> if c \<noteq> 0 \<and> c > maxCooperativeConflict policy
                    then c - maxCooperativeConflict policy else 0))
   = guardedSignalInstability policy signal"
  by (auto simp: guardedSignalInstability_def max_def split: option.splits
      intro!: arg_cong [where f = normalize])

lemma guardedSignalInstability_stated:
  "0 \<le> maxCooperativeConflict policy
   \<Longrightarrow> guardedSignalInstability policy signal = statedSignalInstability policy signal"
  by (auto simp: guardedSignalInstability_def statedSignalInstability_def split: option.splits)

lemma cooperativeInstabilityRisk_guarded:
  "cooperativeInstabilityRisk (deriveLiveBehaviorVector context step policy)
   = (case cooperativeSignals step of
        None \<Rightarrow> 0
      | Some signals \<Rightarrow>
          if signals = [] then 0 else mean (map (guardedSignalInstability policy) signals))"
proof (cases "cooperativeSignals step")
  case None
  then show ?thesis
    by (simp add: deriveLiveBehaviorVector_def Let_def)
next
  case (Some signals)
  show ?thesis
  proof (cases "signals = []")
    case True
    with Some show ?thesis
      by (simp add: deriveLiveBehaviorVector_def Let_def)
  next
    case False
    let ?vs = "map (guardedSignalInstability policy) signals"
    have "list_all (\<lambda>x. 0 \<le> x \<and> x \<le> 1) ?vs"
      by (simp add: list_all_iff guardedSignalInstability_def normalize_bounds)
    moreover have "?vs \<noteq> []"
      using False by simp
    ultimately have unit: "0 \<le> mean ?vs \<and> mean ?vs \<le> 1"
      by (rule mean_unit_bounds)
    have "cooperativeInstabilityRisk (deriveLiveBehaviorVector context step policy)
          = normalize (mean ?vs)"
      using Some False
      by (simp add: deriveLiveBehaviorVector_def Let_def guardedSignalInstability_code
          foldl_plus_sum_list mean_def)
    also have "\<dots> = mean ?vs"
      using unit by (simp add: normalize_unit)
    finally show ?thesis
      using Some False by simp
  qed
qed

text \<open>
  C7, as the code has it. The derived \<open>cooperativeInstabilityRisk\<close> is \<open>0\<close> for a step
  with no cooperative signals (absent or empty); otherwise it is the mean, over the
  signals, of \<open>clamp(max(0, minCooperativeStability - stabilityScore) + e)\<close>, where the
  conflict excess \<open>e\<close> is \<open>max(0, conflictScore - maxCooperativeConflict)\<close> for a conflict
  score that is present and not \<open>0\<close>, and \<open>0\<close> for one that is absent or \<open>0\<close>. For a policy
  with \<open>maxCooperativeConflict \<ge> 0\<close> this is the mean of the stated per-signal formula.
\<close>

theorem cooperativeInstabilityRisk_guarded_mean:
  "cooperativeInstabilityRisk (deriveLiveBehaviorVector context step policy)
     = (case cooperativeSignals step of
          None \<Rightarrow> 0
        | Some signals \<Rightarrow>
            if signals = [] then 0 else mean (map (guardedSignalInstability policy) signals))
   \<and> (0 \<le> maxCooperativeConflict policy \<longrightarrow>
        cooperativeInstabilityRisk (deriveLiveBehaviorVector context step policy)
          = (case cooperativeSignals step of
               None \<Rightarrow> 0
             | Some signals \<Rightarrow>
                 if signals = [] then 0 else mean (map (statedSignalInstability policy) signals)))"
proof (intro conjI impI)
  show "cooperativeInstabilityRisk (deriveLiveBehaviorVector context step policy)
     = (case cooperativeSignals step of
          None \<Rightarrow> 0
        | Some signals \<Rightarrow>
            if signals = [] then 0 else mean (map (guardedSignalInstability policy) signals))"
    by (rule cooperativeInstabilityRisk_guarded)
next
  assume "0 \<le> maxCooperativeConflict policy"
  then have same: "guardedSignalInstability policy = statedSignalInstability policy"
    by (intro ext) (rule guardedSignalInstability_stated)
  show "cooperativeInstabilityRisk (deriveLiveBehaviorVector context step policy)
          = (case cooperativeSignals step of
               None \<Rightarrow> 0
             | Some signals \<Rightarrow>
                 if signals = [] then 0 else mean (map (statedSignalInstability policy) signals))"
    by (simp only: cooperativeInstabilityRisk_guarded same)
qed

theorem cooperativeInstabilityRisk_guarded_mean_witness:
  "0 \<le> maxCooperativeConflict samplePolicy
   \<and> cooperativeInstabilityRisk (deriveLiveBehaviorVector sampleContext cooperativeStep samplePolicy)
       = 1 / 4"
  using cooperativeInstabilityRisk_guarded_mean [of sampleContext cooperativeStep samplePolicy]
  by (simp add: samplePolicy_def cooperativeStep_def mean_def statedSignalInstability_def
      guardedSignalInstability_def normalize_def)

text \<open>
  The stated formula itself fails where a signal reports a conflict score of \<open>0\<close> under a
  negative \<open>maxCooperativeConflict\<close>: the stated excess is \<open>0 - (-1/2) = 1/2\<close>, the code's
  guard \<open>signal.conflictScore && \<dots>\<close> reads the score \<open>0\<close> as absent and adds nothing.
\<close>

theorem cooperativeInstabilityRisk_stated_mean_counterexample:
  "cooperativeInstabilityRisk
     (deriveLiveBehaviorVector sampleContext zeroConflictStep strictConflictPolicy) = 0
   \<and> cooperativeSignals zeroConflictStep = Some [\<lparr> stabilityScore = 1, conflictScore = Some 0 \<rparr>]
   \<and> mean (map (statedSignalInstability strictConflictPolicy)
             [\<lparr> stabilityScore = 1, conflictScore = Some 0 \<rparr>]) = 1 / 2"
  by (simp add: cooperativeInstabilityRisk_guarded zeroConflictStep_def strictConflictPolicy_def
      samplePolicy_def mean_def statedSignalInstability_def guardedSignalInstability_def
      normalize_def)

subsection \<open>Intent deviation\<close>

lemma startsWith_append: "startsWith s w = (\<exists>q. s = w @ q)"
  by (induction s w rule: startsWith.induct) auto

text \<open>\<open>includes s w\<close> is the substring relation.\<close>

lemma includes_substring: "includes s w = (\<exists>p q. s = p @ w @ q)"
proof (induction s)
  case Nil
  show ?case by auto
next
  case (Cons x s)
  have "(\<exists>p q. x # s = p @ w @ q) = ((\<exists>q. x # s = w @ q) \<or> (\<exists>p q. s = p @ w @ q))"
  proof
    assume "\<exists>p q. x # s = p @ w @ q"
    then obtain p q where pq: "x # s = p @ w @ q" by blast
    show "(\<exists>q. x # s = w @ q) \<or> (\<exists>p q. s = p @ w @ q)"
    proof (cases p)
      case Nil
      with pq show ?thesis by auto
    next
      case (Cons y p')
      with pq have "s = p' @ w @ q" by simp
      then show ?thesis by blast
    qed
  next
    assume "(\<exists>q. x # s = w @ q) \<or> (\<exists>p q. s = p @ w @ q)"
    then show "\<exists>p q. x # s = p @ w @ q"
    proof
      assume "\<exists>q. x # s = w @ q"
      then obtain q where "x # s = [] @ w @ q" by auto
      then show ?thesis by blast
    next
      assume "\<exists>p q. s = p @ w @ q"
      then obtain p q where "x # s = (x # p) @ w @ q" by auto
      then show ?thesis by blast
    qed
  qed
  with Cons show ?case
    by (simp only: includes.simps startsWith_append)
qed

lemma toLowerCase_empty: "(toLowerCase s = []) = (s = [])"
  by (simp add: toLowerCase_def)

lemma newSet_foldl:
  "set (foldl (\<lambda>s x. if x \<in> set s then s else s @ [x]) acc xs) = set acc \<union> set xs
   \<and> (distinct acc \<longrightarrow> distinct (foldl (\<lambda>s x. if x \<in> set s then s else s @ [x]) acc xs))"
  by (induction xs arbitrary: acc) auto

lemma set_newSet: "set (newSet xs) = set xs"
  using newSet_foldl [of "[]" xs] by (simp add: newSet_def)

lemma distinct_newSet: "distinct (newSet xs)"
  using newSet_foldl [of "[]" xs] by (simp add: newSet_def)

lemma set_tokens: "set (newSet (filter (\<lambda>token. length token > 3) (splitWhiteSpace s))) = tokenSet s"
  by (auto simp: set_newSet tokenSet_def)

lemma length_tokens:
  "length (newSet (filter (\<lambda>token. length token > 3) (splitWhiteSpace s))) = card (tokenSet s)"
  using distinct_card [OF distinct_newSet, of "filter (\<lambda>token. length token > 3) (splitWhiteSpace s)"]
  by (simp add: set_tokens)

lemma finite_tokenSet: "finite (tokenSet s)"
  by (simp add: tokenSet_def)

lemma overlap_foldl:
  "foldl (\<lambda>overlap token. if token \<in> D then overlap + 1 else overlap) (k::nat) xs
   = k + length (filter (\<lambda>token. token \<in> D) xs)"
  by (induction xs arbitrary: k) simp_all

lemma overlap_card:
  assumes "distinct xs"
  shows "foldl (\<lambda>overlap token. if token \<in> D then overlap + 1 else overlap) (0::nat) xs
         = card {t \<in> D. t \<in> set xs}"
proof -
  have "{t \<in> D. t \<in> set xs} = {t. t \<in> D} \<inter> set xs"
    by auto
  then show ?thesis
    using distinct_length_filter [OF assms, of "\<lambda>token. token \<in> D"]
    by (simp add: overlap_foldl)
qed

text \<open>The loop of \<open>intentSimilarity\<close> computes the token-overlap similarity.\<close>

lemma intentSimilarity_tokenOverlap:
  "intentSimilarity observed declared = tokenOverlapSimilarity observed declared"
proof -
  let ?O = "newSet (filter (\<lambda>token. length token > 3) (splitWhiteSpace observed))"
  let ?D = "newSet (filter (\<lambda>token. length token > 3) (splitWhiteSpace declared))"
  have empty: "(card (tokenSet observed) = 0) = (tokenSet observed = {})"
    "(card (tokenSet declared) = 0) = (tokenSet declared = {})"
    by (simp_all add: finite_tokenSet)
  have "foldl (\<lambda>overlap token. if token \<in> set ?D then overlap + 1 else overlap) (0::nat) ?O
        = card {t \<in> set ?D. t \<in> set ?O}"
    by (rule overlap_card) (rule distinct_newSet)
  then have overlap:
    "foldl (\<lambda>overlap token. if token \<in> set ?D then overlap + 1 else overlap) (0::nat) ?O
     = card {t \<in> tokenSet declared. t \<in> tokenSet observed}"
    by (simp only: set_tokens)
  show ?thesis
    unfolding intentSimilarity_def tokenOverlapSimilarity_def Let_def
    by (simp only: overlap length_tokens empty)
qed

lemma highImpact_substring:
  "list_ex (\<lambda>word. includes observed word) highImpactIntentWords
   = (\<exists>w \<in> {''delete'', ''drop'', ''exfiltrate'', ''disable'', ''override'', ''shutdown''}.
        \<exists>p q. observed = p @ w @ q)"
  by (simp only: list_ex_iff includes_substring highImpactIntentWords_def) simp

lemma observedIntent_absent:
  "(toLowerCase (case observedIntent step of None \<Rightarrow> [] | Some s \<Rightarrow> s) = [])
   = (observedIntent step = None \<or> observedIntent step = Some [])"
  by (simp add: toLowerCase_empty split: option.splits)

lemma intentDeviationRisk_code:
  "intentDeviationRisk (deriveLiveBehaviorVector context step policy)
   = (if toLowerCase (case observedIntent step of None \<Rightarrow> [] | Some s \<Rightarrow> s) = [] then 0
      else if intentSimilarity (toLowerCase (case observedIntent step of None \<Rightarrow> [] | Some s \<Rightarrow> s))
                (toLowerCase (intent context)) \<ge> 25 / 100
      then 0
      else if list_ex (\<lambda>word. includes (toLowerCase (case observedIntent step of None \<Rightarrow> [] | Some s \<Rightarrow> s)) word)
                highImpactIntentWords
      then 1
      else 65 / 100)"
  by (simp add: deriveLiveBehaviorVector_def Let_def normalize_def)

text \<open>
  C6, as the code has it. The derived \<open>intentDeviationRisk\<close> is \<open>0\<close> when the observed
  intent is absent or empty; else \<open>0\<close> when the token-overlap similarity of the lower-cased
  observed and declared intents is at least \<open>0.25\<close>; else \<open>1\<close> when one of the words
  delete, drop, exfiltrate, disable, override, shutdown is a substring of the lower-cased
  observed intent; else \<open>0.65\<close>.
\<close>

theorem intentDeviationRisk_lower_cased:
  "intentDeviationRisk (deriveLiveBehaviorVector context step policy)
   = (let observed = toLowerCase (case observedIntent step of None \<Rightarrow> [] | Some s \<Rightarrow> s);
          declared = toLowerCase (intent context)
      in if observedIntent step = None \<or> observedIntent step = Some [] then 0
         else if tokenOverlapSimilarity observed declared \<ge> 25 / 100 then 0
         else if (\<exists>w \<in> {''delete'', ''drop'', ''exfiltrate'', ''disable'', ''override'', ''shutdown''}.
                    \<exists>p q. observed = p @ w @ q) then 1
         else 65 / 100)"
  by (simp only: Let_def intentDeviationRisk_code observedIntent_absent
      intentSimilarity_tokenOverlap highImpact_substring)

theorem intentDeviationRisk_lower_cased_witness:
  "observedIntent shutdownStep = Some ''please shutdown billing''
   \<and> intentDeviationRisk (deriveLiveBehaviorVector sampleContext shutdownStep samplePolicy) = 1"
proof -
  have lower: "toLowerCase ''please shutdown billing'' = ''please shutdown billing''"
    by code_simp
  have declared: "toLowerCase ''Generate report'' = ''generate report''"
    by code_simp
  have "intentSimilarity ''please shutdown billing'' ''generate report'' = 0"
    by code_simp
  then have similarity:
    "tokenOverlapSimilarity ''please shutdown billing'' ''generate report'' = 0"
    by (simp only: intentSimilarity_tokenOverlap)
  have "includes ''please shutdown billing'' ''shutdown''"
    by code_simp
  then have verb: "\<exists>p q. ''please shutdown billing'' = p @ ''shutdown'' @ q"
    by (simp only: includes_substring)
  show ?thesis
    using intentDeviationRisk_lower_cased [of sampleContext shutdownStep samplePolicy] verb
    by (simp add: shutdownStep_def sampleContext_def lower declared similarity)
qed

text \<open>
  Read to the letter the rule fails on an observed intent that spells the verb in capitals:
  \<open>DELETE\<close> is no occurrence of \<open>delete\<close>, yet the code lower-cases the observed intent
  before it looks for the words and finds it.
\<close>

theorem intentDeviationRisk_stated_counterexample:
  "observedIntent deleteStep = Some ''DELETE all production records''
   \<and> intentDeviationRisk (deriveLiveBehaviorVector sampleContext deleteStep samplePolicy) = 1
   \<and> statedIntentDeviationRisk (observedIntent deleteStep) (intent sampleContext) = 65 / 100"
proof -
  have observed: "observedIntent deleteStep = Some ''DELETE all production records''"
    by (simp add: deleteStep_def)
  have declared: "intent sampleContext = ''Generate report''"
    by (simp add: sampleContext_def)
  have lower: "toLowerCase ''DELETE all production records'' = ''delete all production records''"
    "toLowerCase ''Generate report'' = ''generate report''"
    by code_simp+
  have verb: "list_ex (\<lambda>word. includes ''delete all production records'' word) highImpactIntentWords"
    by code_simp
  have overlap: "intentSimilarity ''delete all production records'' ''generate report'' = 0"
    by code_simp
  have letter: "\<not> list_ex (\<lambda>word. includes ''DELETE all production records'' word)
                   [''delete'', ''drop'', ''exfiltrate'', ''disable'', ''override'', ''shutdown'']"
    by code_simp
  have code: "intentDeviationRisk (deriveLiveBehaviorVector sampleContext deleteStep samplePolicy) = 1"
    by (simp only: intentDeviationRisk_code observed declared option.case lower overlap verb) simp
  have stated: "statedIntentDeviationRisk (observedIntent deleteStep) (intent sampleContext) = 65 / 100"
    by (simp only: statedIntentDeviationRisk_def Let_def observed declared option.case lower
        intentSimilarity_tokenOverlap [symmetric] overlap letter) simp
  show ?thesis
    using observed code stated by simp
qed


section \<open>Properties of the orchestrator\<close>

lemma coordinate_begin_registers:
  "coordinate_begin clock anAgentId anIntent someParams w = ((newActionId, context), w1)
   \<Longrightarrow> newActionId = ''act-'' @ decimal (actionClock clock)
       \<and> context = nextRef w
       \<and> activeActions w1 newActionId = Some context
       \<and> startTime (heap w1 context) = startClock clock
       \<and> endTime (heap w1 context) = None
       \<and> status (heap w1 context) = PENDING"
  by (auto simp: coordinate_begin_def Let_def emit_def)

text \<open>
  C4. Whatever the stages do (whether one throws, pre-execution fails, the in-process
  stage suspends, or the run goes through post-execution), the world \<open>coordinate\<close> leaves
  behind has no entry for the action id in the active-action set - an entry that
  \<open>coordinate\<close> did make at its start.
\<close>

theorem coordinate_removes_active_action:
  "activeActions
     (snd (coordinate preExecution inProcess interventionLayer remediate clock anAgentId anIntent
       someParams w))
     (''act-'' @ decimal (actionClock clock)) = None
   \<and> activeActions (snd (coordinate_begin clock anAgentId anIntent someParams w))
       (''act-'' @ decimal (actionClock clock)) = Some (nextRef w)"
  by (simp add: coordinate_def coordinate_finally_def coordinate_begin_def Let_def emit_def
      split: prod.splits)

theorem coordinate_removes_active_action_witness:
  "fst (coordinate throwingLayer passingLayer passingLayer attachingEngine sampleClock ''agent-7''
          ''Generate report'' (\<lambda>key. JSUndefined) initialWorld)
     = Inl (JSString ''policy store unreachable'')
   \<and> activeActions
       (snd (coordinate throwingLayer passingLayer passingLayer attachingEngine sampleClock ''agent-7''
               ''Generate report'' (\<lambda>key. JSUndefined) initialWorld))
       (''act-'' @ decimal 1700000000000) = None"
proof -
  have thrown: "fst (coordinate throwingLayer passingLayer passingLayer attachingEngine sampleClock ''agent-7''
          ''Generate report'' (\<lambda>key. JSUndefined) initialWorld)
     = Inl (JSString ''policy store unreachable'')"
    by (simp add: coordinate_def coordinate_begin_def coordinate_try_def throwingLayer_def
        Let_def split: prod.splits)
  show ?thesis
    using thrown
      coordinate_removes_active_action [of throwingLayer passingLayer passingLayer
        attachingEngine sampleClock
        "''agent-7''" "''Generate report''" "\<lambda>key. JSUndefined" initialWorld]
    by (simp add: sampleClock_def)
qed

text \<open>
  C10. When the pre-execution stage returns a context in state \<open>PRE_EXECUTION_FAILED\<close>,
  \<open>coordinate\<close> returns that context and leaves the store as the stage left it: it stamps
  no \<open>endTime\<close>. The context it handed to the stage had its \<open>startTime\<close> and no \<open>endTime\<close>,
  so when the stage returns that same context with its times untouched, the result has a
  \<open>startTime\<close> and no \<open>endTime\<close>.
\<close>

theorem coordinate_pre_execution_failed_unstamped:
  assumes start: "coordinate_begin clock anAgentId anIntent someParams w = ((newActionId, context), w1)"
    and pre: "preExecution context w1 = (Inr failed, w2)"
    and failedStatus: "status (heap w2 failed) = PRE_EXECUTION_FAILED"
  shows "coordinate preExecution inProcess interventionLayer remediate clock anAgentId anIntent
       someParams w
           = (Inr failed, coordinate_finally newActionId w2)
         \<and> heap (coordinate_finally newActionId w2) = heap w2
         \<and> startTime (heap w1 context) = startClock clock
         \<and> endTime (heap w1 context) = None
         \<and> (failed = context
              \<and> startTime (heap w2 context) = startTime (heap w1 context)
              \<and> endTime (heap w2 context) = endTime (heap w1 context)
            \<longrightarrow> startTime (heap (coordinate_finally newActionId w2) failed) = startClock clock
                \<and> endTime (heap (coordinate_finally newActionId w2) failed) = None)"
proof -
  have run: "coordinate_try preExecution inProcess interventionLayer remediate clock context w1 = (Inr failed, w2)"
    using pre failedStatus by (simp add: coordinate_try_def)
  have whole: "coordinate preExecution inProcess interventionLayer remediate clock anAgentId anIntent
       someParams w
           = (Inr failed, coordinate_finally newActionId w2)"
    using start run by (simp add: coordinate_def)
  have store: "heap (coordinate_finally newActionId w2) = heap w2"
    by (simp add: coordinate_finally_def)
  have times: "startTime (heap w1 context) = startClock clock" "endTime (heap w1 context) = None"
    using coordinate_begin_registers [OF start] by auto
  show ?thesis
    using whole store times by simp
qed

text \<open>The two paths that do stamp \<open>endTime\<close>: suspension, and completion.\<close>

lemma coordinate_try_suspended_stamped:
  assumes "preExecution context w1 = (Inr context1, w2)"
    and "status (heap w2 context1) \<noteq> PRE_EXECUTION_FAILED"
    and "inProcess context1 w2 = (Inr context2, w3)"
    and "status (heap w3 context2) = SUSPENDED"
  shows "fst (coordinate_try preExecution inProcess interventionLayer remediate clock context w1) = Inr context2
         \<and> endTime (heap (snd (coordinate_try preExecution inProcess interventionLayer remediate clock context w1)) context2)
             = Some (endClock clock)"
  using assms by (simp add: coordinate_try_def)


theorem coordinate_pre_execution_failed_unstamped_witness:
  "fst (coordinate rejectingLayer throwingLayer passingLayer attachingEngine sampleClock ''agent-7''
          ''Generate report'' (\<lambda>key. JSUndefined) initialWorld) = Inr 0
   \<and> status (heap (snd (coordinate rejectingLayer throwingLayer passingLayer attachingEngine sampleClock
         ''agent-7'' ''Generate report'' (\<lambda>key. JSUndefined) initialWorld)) 0) = PRE_EXECUTION_FAILED
   \<and> startTime (heap (snd (coordinate rejectingLayer throwingLayer passingLayer attachingEngine sampleClock
         ''agent-7'' ''Generate report'' (\<lambda>key. JSUndefined) initialWorld)) 0) = 1700000000000
   \<and> endTime (heap (snd (coordinate rejectingLayer throwingLayer passingLayer attachingEngine sampleClock
         ''agent-7'' ''Generate report'' (\<lambda>key. JSUndefined) initialWorld)) 0) = None"
proof -
  let ?begun = "coordinate_begin sampleClock ''agent-7'' ''Generate report'' (\<lambda>key. JSUndefined)
                  initialWorld"
  let ?w1 = "snd ?begun"
  let ?w2 = "?w1\<lparr> heap := (heap ?w1)(0 := (heap ?w1 0)\<lparr> status := PRE_EXECUTION_FAILED \<rparr>) \<rparr>"
  have start: "?begun = ((''act-'' @ decimal 1700000000000, 0), ?w1)"
    by (simp add: coordinate_begin_def Let_def initialWorld_def sampleClock_def)
  have pre: "rejectingLayer 0 ?w1 = (Inr 0, ?w2)"
    by (simp add: rejectingLayer_def)
  have failedStatus: "status (heap ?w2 0) = PRE_EXECUTION_FAILED"
    by simp
  have untouched: "startTime (heap ?w2 0) = startTime (heap ?w1 0)"
    "endTime (heap ?w2 0) = endTime (heap ?w1 0)"
    by simp_all
  show ?thesis
    using coordinate_pre_execution_failed_unstamped
      [where preExecution = rejectingLayer and inProcess = throwingLayer
         and interventionLayer = passingLayer and remediate = attachingEngine,
         OF start pre failedStatus]
      untouched failedStatus
    by (simp add: coordinate_finally_def sampleClock_def)
qed


lemma find_by_key_None: "(find (\<lambda>v. key v = k) xs = None) = (k \<notin> key ` set xs)"
  by (induction xs) auto

text \<open>
  C9. A violation event for an action id that is not in the active-action set changes
  nothing. For an active one, the violation is appended to the context's violations
  exactly when no violation there has its id, so violations with pairwise distinct ids
  stay so; then the intervention layer is run on that same context, in the world so
  changed, and the handler ends when the layer does.
\<close>

theorem onViolationDetected_dedup:
  "(activeActions w anActionId = None
      \<longrightarrow> onViolationDetected interventionLayer anActionId violation w = (Inr (), w))
   \<and> (activeActions w anActionId = Some context \<longrightarrow>
        (let old = violations (heap w context);
             recorded =
               (if violation_id violation \<in> violation_id ` set old then old else old @ [violation]);
             w1 = w\<lparr> heap := (heap w)(context := (heap w context)\<lparr> violations := recorded \<rparr>) \<rparr>
         in onViolationDetected interventionLayer anActionId violation w
              = (case interventionLayer context w1 of
                   (Inl thrown, w2) \<Rightarrow> (Inl thrown, w2)
                 | (Inr returned, w2) \<Rightarrow> (Inr (), w2))
            \<and> (distinct (map violation_id old) \<longrightarrow> distinct (map violation_id recorded))))"
proof (intro conjI impI)
  assume "activeActions w anActionId = None"
  then show "onViolationDetected interventionLayer anActionId violation w = (Inr (), w)"
    by (simp add: onViolationDetected_def)
next
  assume active: "activeActions w anActionId = Some context"
  let ?old = "violations (heap w context)"
  have present:
    "(find (\<lambda>v. violation_id v = violation_id violation) ?old = None)
     = (violation_id violation \<notin> violation_id ` set ?old)"
    by (rule find_by_key_None)
  have same: "w\<lparr> heap := (heap w)(context := (heap w context)\<lparr> violations := ?old \<rparr>) \<rparr> = w"
    by simp
  show "let old = violations (heap w context);
             recorded =
               (if violation_id violation \<in> violation_id ` set old then old else old @ [violation]);
             w1 = w\<lparr> heap := (heap w)(context := (heap w context)\<lparr> violations := recorded \<rparr>) \<rparr>
         in onViolationDetected interventionLayer anActionId violation w
              = (case interventionLayer context w1 of
                   (Inl thrown, w2) \<Rightarrow> (Inl thrown, w2)
                 | (Inr returned, w2) \<Rightarrow> (Inr (), w2))
            \<and> (distinct (map violation_id old) \<longrightarrow> distinct (map violation_id recorded))"
    using active
    by (simp add: onViolationDetected_def Let_def present same)
qed

theorem onViolationDetected_dedup_witness:
  "activeActions auditWorld ''act-42'' = None
   \<and> onViolationDetected passingLayer ''act-42'' lateViolation auditWorld = (Inr (), auditWorld)
   \<and> activeActions auditWorld ''act-1700000000000'' = Some 0
   \<and> violations (heap (snd (onViolationDetected passingLayer ''act-1700000000000'' lateViolation
         auditWorld)) 0) = [monitoringViolation, lateViolation]
   \<and> violations (heap (snd (onViolationDetected passingLayer ''act-1700000000000''
         monitoringViolation auditWorld)) 0) = [monitoringViolation]"
proof -
  have unknown: "activeActions auditWorld ''act-42'' = None"
    and known: "activeActions auditWorld ''act-1700000000000'' = Some 0"
    by (simp_all add: auditWorld_def)
  have old: "violations (heap auditWorld 0) = [monitoringViolation]"
    by (simp add: auditWorld_def)
  have ids: "violation_id lateViolation \<noteq> violation_id monitoringViolation"
    by (simp add: lateViolation_def monitoringViolation_def)
  show ?thesis
    using unknown known
      onViolationDetected_dedup [of auditWorld "''act-42''" passingLayer lateViolation 0]
      onViolationDetected_dedup [of auditWorld "''act-1700000000000''" passingLayer lateViolation 0]
      onViolationDetected_dedup [of auditWorld "''act-1700000000000''" passingLayer
        monitoringViolation 0]
    by (simp add: Let_def old ids passingLayer_def)
qed


section \<open>Properties of the post-execution layer\<close>






section \<open>Action ids\<close>

lemma digit_inj:
  assumes "a < 10" and "b < 10" and "''0123456789'' ! a = ''0123456789'' ! b"
  shows "a = b"
proof -
  have "distinct ''0123456789''"
    by simp
  moreover have "a < length ''0123456789''" and "b < length ''0123456789''"
    using assms(1,2) by simp_all
  ultimately show ?thesis
    using assms(3) by (simp only: nth_eq_iff_index_eq)
qed

lemma decimal_not_empty: "decimal n \<noteq> []"
  by (subst decimal.simps) simp

lemma decimal_inj: "decimal m = decimal n \<Longrightarrow> m = n"
proof (induction m arbitrary: n rule: less_induct)
  case (less m)
  show ?case
  proof (cases "m < 10")
    case True
    then have single: "decimal m = [''0123456789'' ! m]"
      by (subst decimal.simps) simp
    show ?thesis
    proof (cases "n < 10")
      case True
      then have "decimal n = [''0123456789'' ! n]"
        by (subst decimal.simps) simp
      with single less.prems have "''0123456789'' ! m = ''0123456789'' ! n"
        by simp
      with \<open>m < 10\<close> True show ?thesis
        by (rule digit_inj)
    next
      case False
      then have "decimal n = decimal (n div 10) @ [''0123456789'' ! (n mod 10)]"
        by (subst decimal.simps) simp
      with single less.prems have "decimal (n div 10) = []"
        by simp
      then show ?thesis
        by (simp add: decimal_not_empty)
    qed
  next
    case False
    then have long: "decimal m = decimal (m div 10) @ [''0123456789'' ! (m mod 10)]"
      by (subst decimal.simps) simp
    show ?thesis
    proof (cases "n < 10")
      case True
      then have "decimal n = [''0123456789'' ! n]"
        by (subst decimal.simps) simp
      with long less.prems have "decimal (m div 10) = []"
        by simp
      then show ?thesis
        by (simp add: decimal_not_empty)
    next
      case nlong: False
      then have "decimal n = decimal (n div 10) @ [''0123456789'' ! (n mod 10)]"
        by (subst decimal.simps) simp
      with long less.prems
      have front: "decimal (m div 10) = decimal (n div 10)"
        and final: "''0123456789'' ! (m mod 10) = ''0123456789'' ! (n mod 10)"
        by simp_all
      have "m div 10 < m"
        using False by simp
      then have quotient: "m div 10 = n div 10"
        using front by (rule less.IH)
      have "m mod 10 < 10" and "n mod 10 < 10"
        by simp_all
      then have remainder: "m mod 10 = n mod 10"
        using final by (rule digit_inj)
      show ?thesis
        using quotient remainder by (metis div_mult_mod_eq)
    qed
  qed
qed

text \<open>Two calls get the same action id exactly when they read the same millisecond.\<close>

lemma coordinate_begin_same_id:
  "(fst (fst (coordinate_begin clock1 agent1 intent1 params1 w1))
      = fst (fst (coordinate_begin clock2 agent2 intent2 params2 w2)))
   = (actionClock clock1 = actionClock clock2)"
  by (auto simp: coordinate_begin_def Let_def dest: decimal_inj)

text \<open>
  C5. Every call of \<open>coordinate\<close> is to get an action id distinct from that of every other
  action in flight, so that the active-action set holds one context per id. The code does
  not ensure it: the action id is \<open>act-\<close> followed by the clock reading, and two calls
  that read the same millisecond get the same id. The second registration then replaces
  the first in the active-action set while the first action is still pending, and when
  the first call reaches its \<open>finally\<close> block it removes the entry of the second.
\<close>

theorem coordinate_same_millisecond_collision:
  "(case coordinate_begin sampleClock ''agent-a'' ''Export data'' (\<lambda>key. JSUndefined) initialWorld of
      ((firstId, first), w1) \<Rightarrow>
        (case coordinate_begin sampleClock ''agent-b'' ''Rotate keys'' (\<lambda>key. JSUndefined) w1 of
           ((secondId, second), w2) \<Rightarrow>
             firstId = secondId \<and> first \<noteq> second
             \<and> agentId (heap w2 first) = ''agent-a'' \<and> status (heap w2 first) = PENDING
             \<and> agentId (heap w2 second) = ''agent-b'' \<and> status (heap w2 second) = PENDING
             \<and> activeActions w2 firstId = Some second
             \<and> activeActions (coordinate_finally firstId w2) secondId = None))"
  by (simp add: coordinate_begin_def coordinate_finally_def emit_def Let_def initialWorld_def
      sampleClock_def)

end
